theory Spec2Isabelle
  imports Complex_Main "HOL-Library.Log_Nat"
begin

section \<open>Python values used by the coffee order builder\<close>

subsection \<open>Floats\<close>

text \<open>
  A Python float is an IEEE binary64 number. It is modelled by the rational number it
  denotes, and every float operation rounds its exact result to the nearest number with
  a 53 bit significand, ties to the even significand. The exponent range of binary64 is
  not represented: every float the builder computes is 0 or lies between 0.2 and 1024.
\<close>

definition round_half_even :: "rat \<Rightarrow> int" where
  "round_half_even y =
     (let f = \<lfloor>y\<rfloor>; d = y - of_int f
      in if d < 1 / 2 then f
         else if 1 / 2 < d then f + 1
         else if even f then f else f + 1)"

text \<open>The exponent \<open>e\<close> of a positive rational: \<open>2 powi e \<le> x < 2 powi (e + 1)\<close>.\<close>

definition ilog2 :: "rat \<Rightarrow> int" where
  "ilog2 x =
     (let (p, q) = quotient_of x; k = bitlen p - bitlen q
      in if 2 powi k \<le> x then k else k - 1)"

definition fl :: "rat \<Rightarrow> rat" where
  "fl x =
     (if x = 0 then 0
      else let u = 2 powi (ilog2 \<bar>x\<bar> - 52)
           in of_int (round_half_even (x / u)) * u)"

definition float_of_int :: "int \<Rightarrow> rat" where
  "float_of_int i = fl (of_int i)"

definition fmul :: "rat \<Rightarrow> rat \<Rightarrow> rat" where
  "fmul a b = fl (a * b)"

definition fadd :: "rat \<Rightarrow> rat \<Rightarrow> rat" where
  "fadd a b = fl (a + b)"

subsection \<open>Integers, booleans and other arguments\<close>

text \<open>
  \<open>pyint\<close> holds the values \<open>v\<close> with \<open>isinstance(v, int)\<close>: \<open>bool\<close> is a subclass of
  \<open>int\<close>, and \<open>True\<close> compares and computes as 1, \<open>False\<close> as 0, while \<open>str\<close> keeps them
  apart. \<open>pyval\<close> is an argument of any type.
\<close>

datatype pyint = PInt int | PBool bool

datatype pyval = VInt pyint | VFloat rat | VStr string | VNone

fun int_val :: "pyint \<Rightarrow> int" where
  "int_val (PInt i) = i"
| "int_val (PBool f) = (if f then 1 else 0)"

fun isinstance_int :: "pyval \<Rightarrow> pyint option" where
  "isinstance_int (VInt n) = Some n"
| "isinstance_int _ = None"

fun isinstance_bool :: "pyval \<Rightarrow> bool option" where
  "isinstance_bool (VInt (PBool f)) = Some f"
| "isinstance_bool _ = None"

subsection \<open>Strings\<close>

definition digit_char :: "nat \<Rightarrow> char" where
  "digit_char d = char_of (48 + d)"

function str_nat :: "nat \<Rightarrow> string" where
  "str_nat n = (if n < 10 then [digit_char n] else str_nat (n div 10) @ [digit_char (n mod 10)])"
  by pat_completeness auto
termination
  by (relation "measure id") auto

declare str_nat.simps [simp del]

definition str_int :: "int \<Rightarrow> string" where
  "str_int i = (if i < 0 then CHR ''-'' # str_nat (nat (- i)) else str_nat (nat i))"

fun str_pyint :: "pyint \<Rightarrow> string" where
  "str_pyint (PInt i) = str_int i"
| "str_pyint (PBool f) = (if f then ''True'' else ''False'')"

fun join :: "string \<Rightarrow> string list \<Rightarrow> string" where
  "join sep [] = []"
| "join sep [x] = x"
| "join sep (x # y # ys) = x @ sep @ join sep (y # ys)"

text \<open>
  \<open>repr\<close> of a string without quotes or escapes in it, and of a set of such strings. The
  order in which Python prints a set is not fixed by the source; the table's order is
  used, and no theorem below depends on it.
\<close>

definition repr_str :: "string \<Rightarrow> string" where
  "repr_str s = [CHR 0x27] @ s @ [CHR 0x27]"

definition repr_set :: "string list \<Rightarrow> string" where
  "repr_set xs = ''{'' @ join '', '' (map repr_str xs) @ ''}''"

subsection \<open>Lists and tuples\<close>

text \<open>
  A list is a mutable object: the heap maps its address to its items, and two references
  to one address see each other's changes. A tuple is immutable and is its items.
\<close>

type_synonym addr = nat

record heap =
  lists :: "addr \<Rightarrow> string list"
  next_addr :: addr

datatype seq = Tuple "string list" | ListRef addr

fun items :: "heap \<Rightarrow> seq \<Rightarrow> string list" where
  "items h (Tuple xs) = xs"
| "items h (ListRef a) = lists h a"

definition new_list :: "heap \<Rightarrow> addr \<times> heap" where
  "new_list h =
     (next_addr h, h\<lparr>lists := (lists h)(next_addr h := []), next_addr := Suc (next_addr h)\<rparr>)"

definition list_append :: "addr \<Rightarrow> string \<Rightarrow> heap \<Rightarrow> heap" where
  "list_append a x h = h\<lparr>lists := (lists h)(a := lists h a @ [x])\<rparr>"

definition list_clear :: "addr \<Rightarrow> heap \<Rightarrow> heap" where
  "list_clear a h = h\<lparr>lists := (lists h)(a := [])\<rparr>"

definition tuple :: "heap \<Rightarrow> addr \<Rightarrow> seq" where
  "tuple h a = Tuple (lists h a)"

datatype error = ValueError string | TypeError string | KeyError string

section \<open>CoffeeOrder\<close>

record CoffeeOrder =
  order_base :: string
  order_size :: string
  order_milk :: string
  order_syrups :: seq
  order_sugar :: pyint
  order_iced :: bool
  order_price :: rat
  order_description :: string

text \<open>\<open>CoffeeOrder._gen_description\<close>: the parts are collected in a list and joined.\<close>

definition gen_description :: "heap \<Rightarrow> CoffeeOrder \<Rightarrow> string" where
  "gen_description h self =
     (let parts = [order_size self, order_base self];
          parts = (if order_milk self \<noteq> ''none''
                   then parts @ [''with '' @ order_milk self @ '' milk''] else parts);
          parts = (if items h (order_syrups self) \<noteq> []
                   then parts @ [''+'' @ join '', '' (items h (order_syrups self))] else parts);
          parts = (if order_iced self then parts @ [''(iced)''] else parts);
          parts = (if int_val (order_sugar self) > 0
                   then parts @ [str_pyint (order_sugar self) @ '' tsp sugar''] else parts)
      in join '' '' parts)"

text \<open>\<open>CoffeeOrder.__init__\<close>; the argument \<open>description\<close> is \<open>None\<close> when it is omitted.\<close>

definition CoffeeOrder_init ::
  "heap \<Rightarrow> string \<Rightarrow> string \<Rightarrow> string \<Rightarrow> seq \<Rightarrow> pyint \<Rightarrow> bool \<Rightarrow> rat \<Rightarrow> string option
     \<Rightarrow> CoffeeOrder" where
  "CoffeeOrder_init h base size' milk syrups sugar iced price description =
     (let self = \<lparr>order_base = base, order_size = size', order_milk = milk,
                   order_syrups = syrups, order_sugar = sugar, order_iced = iced,
                   order_price = price, order_description = []\<rparr>
      in case description of
           Some d \<Rightarrow> self\<lparr>order_description := d\<rparr>
         | None \<Rightarrow> self\<lparr>order_description := gen_description h self\<rparr>)"

text \<open>What a reader of the order's attributes sees in heap \<open>h\<close>.\<close>

definition order_view ::
  "heap \<Rightarrow> CoffeeOrder \<Rightarrow> string \<times> string \<times> string \<times> string list \<times> pyint \<times> bool \<times> rat \<times> string" where
  "order_view h ord =
     (order_base ord, order_size ord, order_milk ord, items h (order_syrups ord),
      order_sugar ord, order_iced ord, order_price ord, order_description ord)"

section \<open>CoffeeOrderBuilder\<close>

definition BASE_PRICES :: "(string \<times> int) list" where
  "BASE_PRICES = [(''espresso'', 200), (''americano'', 250), (''latte'', 300), (''cappuccino'', 320)]"

definition SIZE_MULTIPLIERS :: "(string \<times> rat) list" where
  "SIZE_MULTIPLIERS = [(''small'', fl 1), (''medium'', fl (12 / 10)), (''large'', fl (14 / 10))]"

definition MILK_PRICES :: "(string \<times> rat) list" where
  "MILK_PRICES =
     [(''none'', fl 0), (''whole'', fl 30), (''skim'', fl 30), (''oat'', fl 60), (''soy'', fl 50)]"

definition SYRUP_PRICE :: rat where "SYRUP_PRICE = fl 40"
definition ICED_EXTRA :: rat where "ICED_EXTRA = fl (2 / 10)"
definition MAX_SYRUPS :: int where "MAX_SYRUPS = 4"
definition MAX_SUGAR :: int where "MAX_SUGAR = 5"
definition MIN_SUGAR :: int where "MIN_SUGAR = 0"

definition VALID_BASES :: "string list" where "VALID_BASES = map fst BASE_PRICES"
definition VALID_SIZES :: "string list" where "VALID_SIZES = map fst SIZE_MULTIPLIERS"
definition VALID_MILKS :: "string list" where "VALID_MILKS = map fst MILK_PRICES"

record CoffeeOrderBuilder =
  builder_base :: "string option"
  builder_size :: "string option"
  builder_milk :: string
  builder_syrups :: addr
  builder_sugar :: pyint
  builder_iced :: bool

text \<open>
  A method runs on the builder's fields and the heap, and returns what it returned or
  raised together with the fields and the heap it leaves behind.
\<close>

type_synonym state = "CoffeeOrderBuilder \<times> heap"

definition CoffeeOrderBuilder_init :: "heap \<Rightarrow> state" where
  "CoffeeOrderBuilder_init h =
     (let (a, h') = new_list h
      in (\<lparr>builder_base = None, builder_size = None, builder_milk = ''none'',
           builder_syrups = a, builder_sugar = PInt 0, builder_iced = False\<rparr>, h'))"

definition set_base :: "string \<Rightarrow> state \<Rightarrow> (error + unit) \<times> state" where
  "set_base base s =
     (let (b, h) = s
      in if base \<notin> set VALID_BASES
         then (Inl (ValueError (''Invalid base '' @ repr_str base @ '', must be one of ''
                                @ repr_set VALID_BASES)), s)
         else (Inr (), (b\<lparr>builder_base := Some base\<rparr>, h)))"

definition set_size :: "string \<Rightarrow> state \<Rightarrow> (error + unit) \<times> state" where
  "set_size size' s =
     (let (b, h) = s
      in if size' \<notin> set VALID_SIZES
         then (Inl (ValueError (''Invalid size '' @ repr_str size' @ '', must be one of ''
                                @ repr_set VALID_SIZES)), s)
         else (Inr (), (b\<lparr>builder_size := Some size'\<rparr>, h)))"

definition set_milk :: "string \<Rightarrow> state \<Rightarrow> (error + unit) \<times> state" where
  "set_milk milk s =
     (let (b, h) = s
      in if milk \<notin> set VALID_MILKS
         then (Inl (ValueError (''Invalid milk '' @ repr_str milk @ '', must be one of ''
                                @ repr_set VALID_MILKS)), s)
         else (Inr (), (b\<lparr>builder_milk := milk\<rparr>, h)))"

definition add_syrup :: "string \<Rightarrow> state \<Rightarrow> (error + unit) \<times> state" where
  "add_syrup name s =
     (let (b, h) = s
      in if name \<notin> set (lists h (builder_syrups b))
         then if int (length (lists h (builder_syrups b))) \<ge> MAX_SYRUPS
              then (Inl (ValueError (''Cannot add more than '' @ str_int MAX_SYRUPS @ '' syrups'')), s)
              else (Inr (), (b, list_append (builder_syrups b) name h))
         else (Inr (), s))"

definition set_sugar :: "pyval \<Rightarrow> state \<Rightarrow> (error + unit) \<times> state" where
  "set_sugar teaspoons s =
     (let (b, h) = s
      in case isinstance_int teaspoons of
           None \<Rightarrow> (Inl (TypeError ''Sugar must be an int''), s)
         | Some n \<Rightarrow>
             if int_val n < MIN_SUGAR \<or> int_val n > MAX_SUGAR
             then (Inl (ValueError (''Sugar must be between '' @ str_int MIN_SUGAR @ '' and ''
                                    @ str_int MAX_SUGAR)), s)
             else (Inr (), (b\<lparr>builder_sugar := n\<rparr>, h)))"

definition set_iced :: "pyval \<Rightarrow> state \<Rightarrow> (error + unit) \<times> state" where
  "set_iced iced s =
     (let (b, h) = s
      in case isinstance_bool iced of
           None \<Rightarrow> (Inl (TypeError ''Iced must be a bool''), s)
         | Some f \<Rightarrow> (Inr (), (b\<lparr>builder_iced := f\<rparr>, h)))"

definition clear_extras :: "state \<Rightarrow> (error + unit) \<times> state" where
  "clear_extras s =
     (let (b, h) = s;
          b = b\<lparr>builder_milk := ''none''\<rparr>;
          h = list_clear (builder_syrups b) h;
          b = b\<lparr>builder_sugar := PInt 0\<rparr>;
          b = b\<lparr>builder_iced := False\<rparr>
      in (Inr (), (b, h)))"

text \<open>
  \<open>build\<close>. A subscript of a price table with a key it does not hold raises \<open>KeyError\<close>.
  The product of the integer base price and the float multiplier converts the integer
  first, as does the product of the syrup count and the float syrup price.
\<close>

definition build :: "state \<Rightarrow> (error + CoffeeOrder) \<times> state" where
  "build s =
     (let (b, h) = s
      in case builder_base b of
           None \<Rightarrow> (Inl (ValueError ''Base is required''), s)
         | Some base \<Rightarrow>
        (case builder_size b of
           None \<Rightarrow> (Inl (ValueError ''Size is required''), s)
         | Some size' \<Rightarrow>
        (case map_of BASE_PRICES base of
           None \<Rightarrow> (Inl (KeyError base), s)
         | Some base_price \<Rightarrow>
        (case map_of SIZE_MULTIPLIERS size' of
           None \<Rightarrow> (Inl (KeyError size'), s)
         | Some size_mul \<Rightarrow>
        (case map_of MILK_PRICES (builder_milk b) of
           None \<Rightarrow> (Inl (KeyError (builder_milk b)), s)
         | Some milk_price \<Rightarrow>
             let syrups_price =
                   fmul (float_of_int (int (length (lists h (builder_syrups b))))) SYRUP_PRICE;
                 iced_price = (if builder_iced b then ICED_EXTRA else fl 0);
                 total_price =
                   fadd (fadd (fadd (fmul (float_of_int base_price) size_mul) milk_price)
                              syrups_price) iced_price;
                 order = CoffeeOrder_init h base size' (builder_milk b)
                           (tuple h (builder_syrups b)) (builder_sugar b) (builder_iced b)
                           total_price None
             in (Inr order, s))))))"

subsection \<open>Sequences of calls on one builder\<close>

datatype call =
    SetBase string | SetSize string | SetMilk string | AddSyrup string
  | SetSugar pyval | SetIced pyval | ClearExtras | Build

text \<open>The state a call leaves behind, whether it returns or raises.\<close>

fun exec :: "call \<Rightarrow> state \<Rightarrow> state" where
  "exec (SetBase x) s = snd (set_base x s)"
| "exec (SetSize x) s = snd (set_size x s)"
| "exec (SetMilk x) s = snd (set_milk x s)"
| "exec (AddSyrup x) s = snd (add_syrup x s)"
| "exec (SetSugar v) s = snd (set_sugar v s)"
| "exec (SetIced v) s = snd (set_iced v s)"
| "exec ClearExtras s = snd (clear_extras s)"
| "exec Build s = snd (build s)"

definition run :: "call list \<Rightarrow> state \<Rightarrow> state" where
  "run cs s = fold exec cs s"

text \<open>The syrups of the builder, read through its list reference.\<close>

definition syrups_of :: "state \<Rightarrow> string list" where
  "syrups_of s = lists (snd s) (builder_syrups (fst s))"

section \<open>The specification's price formula and rendering rule\<close>

text \<open>
  The tables and the formula as the specification words them, over exact decimal
  numbers, to be compared with what \<open>build\<close> computes in floats.
\<close>

definition spec_basePrice :: "string \<Rightarrow> rat" where
  "spec_basePrice base =
     (if base = ''espresso'' then 200 else if base = ''americano'' then 250
      else if base = ''latte'' then 300 else if base = ''cappuccino'' then 320 else 0)"

definition spec_sizeMultiplier :: "string \<Rightarrow> rat" where
  "spec_sizeMultiplier size' =
     (if size' = ''small'' then 1 else if size' = ''medium'' then 12 / 10
      else if size' = ''large'' then 14 / 10 else 0)"

definition spec_milkPrice :: "string \<Rightarrow> rat" where
  "spec_milkPrice milk =
     (if milk = ''none'' then 0 else if milk = ''whole'' then 30 else if milk = ''skim'' then 30
      else if milk = ''oat'' then 60 else if milk = ''soy'' then 50 else 0)"

definition spec_price :: "string \<Rightarrow> string \<Rightarrow> string \<Rightarrow> nat \<Rightarrow> bool \<Rightarrow> rat" where
  "spec_price base size' milk syrupCount iced =
     spec_basePrice base * spec_sizeMultiplier size' + spec_milkPrice milk
       + 40 * of_nat syrupCount + (if iced then 2 / 10 else 0)"

text \<open>
  The rendering rule as the specification words it: the segments that are present, each
  after a single space.
\<close>

definition spec_description ::
  "string \<Rightarrow> string \<Rightarrow> string \<Rightarrow> string list \<Rightarrow> pyint \<Rightarrow> bool \<Rightarrow> string" where
  "spec_description base size' milk syrups sugar iced =
     size' @ '' '' @ base
       @ (if milk \<noteq> ''none'' then '' with '' @ milk @ '' milk'' else [])
       @ (if syrups \<noteq> [] then '' +'' @ join '', '' syrups else [])
       @ (if iced then '' (iced)'' else [])
       @ (if 0 < int_val sugar then '' '' @ str_pyint sugar @ '' tsp sugar'' else [])"

section \<open>Required fields of build\<close>

text \<open>
  Claim C2. Whatever the state of the builder, \<open>build\<close> with no base set raises
  \<open>ValueError\<close> with the message "Base is required"; with a base set and no size set it
  raises \<open>ValueError\<close> with the message "Size is required". In both cases no order is
  returned and the builder's fields and the heap are as they were.
\<close>

theorem build_required_fields:
  "(builder_base b = None \<longrightarrow>
      build (b, h) = (Inl (ValueError ''Base is required''), (b, h)))
   \<and> (builder_base b \<noteq> None \<and> builder_size b = None \<longrightarrow>
      build (b, h) = (Inl (ValueError ''Size is required''), (b, h)))"
  by (auto simp: build_def)

theorem build_required_fields_witness:
  "build (fst (CoffeeOrderBuilder_init \<lparr>lists = (\<lambda>_. []), next_addr = 0\<rparr>),
          snd (CoffeeOrderBuilder_init \<lparr>lists = (\<lambda>_. []), next_addr = 0\<rparr>))
     = (Inl (ValueError ''Base is required''),
        CoffeeOrderBuilder_init \<lparr>lists = (\<lambda>_. []), next_addr = 0\<rparr>)
   \<and> build (snd (set_base ''americano''
                (CoffeeOrderBuilder_init \<lparr>lists = (\<lambda>_. []), next_addr = 0\<rparr>)))
     = (Inl (ValueError ''Size is required''),
        snd (set_base ''americano''
               (CoffeeOrderBuilder_init \<lparr>lists = (\<lambda>_. []), next_addr = 0\<rparr>)))"
  using build_required_fields
          [of "fst (CoffeeOrderBuilder_init \<lparr>lists = (\<lambda>_. []), next_addr = 0\<rparr>)"
              "snd (CoffeeOrderBuilder_init \<lparr>lists = (\<lambda>_. []), next_addr = 0\<rparr>)"]
        build_required_fields
          [of "fst (snd (set_base ''americano''
                 (CoffeeOrderBuilder_init \<lparr>lists = (\<lambda>_. []), next_addr = 0\<rparr>)))"
              "snd (snd (set_base ''americano''
                 (CoffeeOrderBuilder_init \<lparr>lists = (\<lambda>_. []), next_addr = 0\<rparr>)))"]
  by (simp add: CoffeeOrderBuilder_init_def new_list_def set_base_def VALID_BASES_def
        BASE_PRICES_def)

end
